theory Spec2Isabelle
  imports Complex_Main "HOL-Library.Sublist" "HOL-Library.AList"
begin

section \<open>Numbers\<close>

text \<open>
  The program computes with JavaScript numbers. They are modelled by the reals: the
  arithmetic below is the exact arithmetic that the IEEE doubles of the program
  approximate. The one non-number the scoring code tests for, a \<open>NaN\<close> page load time,
  is the value \<open>None\<close> of \<open>real option\<close>. \<open>Math.round\<close> rounds to the nearest integer,
  a tie going up. A double can differ from the real it stands for by a rounding error, so
  a computed value that falls within such an error of a tie may round the other way in
  the program: what is stated of the program below keeps away from those points.
\<close>

definition Math_round :: "real \<Rightarrow> real" where
  "Math_round x = of_int \<lfloor>x + 1 / 2\<rfloor>"

definition Math_min :: "real \<Rightarrow> real \<Rightarrow> real" where
  "Math_min a b = (if a \<le> b then a else b)"

section \<open>Thresholds and weights\<close>

definition CO2_GOAL :: real where
  "CO2_GOAL = 6 / 10"

definition PAGE_LOAD_TIME_GOAL_SECONDS :: real where
  "PAGE_LOAD_TIME_GOAL_SECONDS = 34 / 10"

definition SEO_GOAL :: real where
  "SEO_GOAL = 85"

definition PERFORMANCE_SCORE_GOAL :: real where
  "PERFORMANCE_SCORE_GOAL = 85"

definition PERFORMANCE_WEIGHT :: real where
  "PERFORMANCE_WEIGHT = 20 / 100"

definition SEO_WEIGHT :: real where
  "SEO_WEIGHT = 20 / 100"

definition CO2_WEIGHT :: real where
  "CO2_WEIGHT = 40 / 100"

definition PAGE_LOAD_TIME_WEIGHT :: real where
  "PAGE_LOAD_TIME_WEIGHT = 20 / 100"

section \<open>The sub-scores of \<open>getEcoScore\<close>\<close>

text \<open>
  Each local constant of \<open>getEcoScore\<close> that holds a sub-score is a function of the
  measurement it is computed from, under the name it has in the source.
\<close>

definition co2Score :: "real \<Rightarrow> real" where
  "co2Score emissions =
     (if emissions = 0 then CO2_WEIGHT * 100
      else Math_min (Math_round ((CO2_GOAL / emissions) * 100 * CO2_WEIGHT)) (CO2_WEIGHT * 100))"

definition performanceScore :: "real \<Rightarrow> real" where
  "performanceScore perf = Math_round (perf * PERFORMANCE_WEIGHT)"

definition seoScore :: "real \<Rightarrow> real" where
  "seoScore s = Math_round (Math_min (s / SEO_GOAL) 100 * SEO_WEIGHT)"

definition pageLoadTimeScore :: "real option \<Rightarrow> real" where
  "pageLoadTimeScore plt =
     (let pageLoadTime = (case plt of None \<Rightarrow> 0 | Some t \<Rightarrow> t)
      in if pageLoadTime \<le> PAGE_LOAD_TIME_GOAL_SECONDS then 100
         else Math_round ((PAGE_LOAD_TIME_GOAL_SECONDS / pageLoadTime) * 100))"

definition weightedPageLoadTimeScore :: "real option \<Rightarrow> real" where
  "weightedPageLoadTimeScore plt = Math_round (pageLoadTimeScore plt * PAGE_LOAD_TIME_WEIGHT)"

definition ecoScore :: "real \<Rightarrow> real \<Rightarrow> real option \<Rightarrow> real \<Rightarrow> real" where
  "ecoScore perf s plt emissions =
     performanceScore perf + seoScore s + weightedPageLoadTimeScore plt + co2Score emissions"

text \<open>The value of the field \<open>Eco Score\<close> of the object that is returned: the sum, capped.\<close>

definition Eco_Score_of :: "real \<Rightarrow> real \<Rightarrow> real option \<Rightarrow> real \<Rightarrow> real" where
  "Eco_Score_of perf s plt emissions = Math_min (ecoScore perf s plt emissions) 100"

section \<open>The country table\<close>

definition countryTable :: "(string \<times> string) list" where
  "countryTable =
    [(''Afghanistan'', ''AFG''), (''Albania'', ''ALB''), (''Algeria'', ''DZA''),
     (''Andorra'', ''AND''), (''Angola'', ''AGO''), (''Antigua and Barbuda'', ''ATG''),
     (''Argentina'', ''ARG''), (''Armenia'', ''ARM''), (''Australia'', ''AUS''),
     (''Austria'', ''AUT''), (''Azerbaijan'', ''AZE''), (''Bahamas'', ''BHS''),
     (''Bahrain'', ''BHR''), (''Bangladesh'', ''BGD''), (''Barbados'', ''BRB''),
     (''Belarus'', ''BLR''), (''Belgium'', ''BEL''), (''Belize'', ''BLZ''),
     (''Benin'', ''BEN''), (''Bhutan'', ''BTN''), (''Bolivia'', ''BOL''),
     (''Bosnia and Herzegovina'', ''BIH''), (''Botswana'', ''BWA''), (''Brazil'', ''BRA''),
     (''Brunei'', ''BRN''), (''Bulgaria'', ''BGR''), (''Burkina Faso'', ''BFA''),
     (''Burundi'', ''BDI''), (''Cabo Verde'', ''CPV''), (''Cambodia'', ''KHM''),
     (''Cameroon'', ''CMR''), (''Canada'', ''CAN''), (''Central African Republic'', ''CAF''),
     (''Chad'', ''TCD''), (''Chile'', ''CHL''), (''China'', ''CHN''), (''Colombia'', ''COL''),
     (''Comoros'', ''COM''), (''Congo, Democratic Republic of the'', ''COD''),
     (''Congo, Republic of the'', ''COG''), (''Costa Rica'', ''CRI''), (''Croatia'', ''HRV''),
     (''Cuba'', ''CUB''), (''Cyprus'', ''CYP''), (''Czech Republic'', ''CZE''),
     (''Denmark'', ''DNK''), (''Djibouti'', ''DJI''), (''Dominica'', ''DMA''),
     (''Dominican Republic'', ''DOM''), (''Ecuador'', ''ECU''), (''Egypt'', ''EGY''),
     (''El Salvador'', ''SLV''), (''Equatorial Guinea'', ''GNQ''), (''Eritrea'', ''ERI''),
     (''Estonia'', ''EST''), (''Eswatini'', ''SWZ''), (''Ethiopia'', ''ETH''),
     (''Fiji'', ''FJI''), (''Finland'', ''FIN''), (''France'', ''FRA''), (''Gabon'', ''GAB''),
     (''Gambia'', ''GMB''), (''Georgia'', ''GEO''), (''Germany'', ''DEU''),
     (''Ghana'', ''GHA''), (''Greece'', ''GRC''), (''Grenada'', ''GRD''),
     (''Guatemala'', ''GTM''), (''Guinea'', ''GIN''), (''Guinea-Bissau'', ''GNB''),
     (''Guyana'', ''GUY''), (''Haiti'', ''HTI''), (''Honduras'', ''HND''),
     (''Hungary'', ''HUN''), (''Iceland'', ''ISL''), (''India'', ''IND''),
     (''Indonesia'', ''IDN''), (''Iran'', ''IRN''), (''Iraq'', ''IRQ''),
     (''Ireland'', ''IRL''), (''Israel'', ''ISR''), (''Italy'', ''ITA''),
     (''Jamaica'', ''JAM''), (''Japan'', ''JPN''), (''Jordan'', ''JOR''),
     (''Kazakhstan'', ''KAZ''), (''Kenya'', ''KEN''), (''Kiribati'', ''KIR''),
     (''Korea, North'', ''PRK''), (''Korea, South'', ''KOR''), (''Kuwait'', ''KWT''),
     (''Kyrgyzstan'', ''KGZ''), (''Laos'', ''LAO''), (''Latvia'', ''LVA''),
     (''Lebanon'', ''LBN''), (''Lesotho'', ''LSO''), (''Liberia'', ''LBR''),
     (''Libya'', ''LBY''), (''Liechtenstein'', ''LIE''), (''Lithuania'', ''LTU''),
     (''Luxembourg'', ''LUX''), (''Madagascar'', ''MDG''), (''Malawi'', ''MWI''),
     (''Malaysia'', ''MYS''), (''Maldives'', ''MDV''), (''Mali'', ''MLI''),
     (''Malta'', ''MLT''), (''Marshall Islands'', ''MHL''), (''Mauritania'', ''MRT''),
     (''Mauritius'', ''MUS''), (''Mexico'', ''MEX''), (''Micronesia'', ''FSM''),
     (''Moldova'', ''MDA''), (''Monaco'', ''MCO''), (''Mongolia'', ''MNG''),
     (''Montenegro'', ''MNE''), (''Morocco'', ''MAR''), (''Mozambique'', ''MOZ''),
     (''Myanmar (Burma)'', ''MMR''), (''Namibia'', ''NAM''), (''Nauru'', ''NRU''),
     (''Nepal'', ''NPL''), (''Netherlands'', ''NLD''), (''New Zealand'', ''NZL''),
     (''Nicaragua'', ''NIC''), (''Niger'', ''NER''), (''Nigeria'', ''NGA''),
     (''North Macedonia'', ''MKD''), (''Norway'', ''NOR''), (''Oman'', ''OMN''),
     (''Pakistan'', ''PAK''), (''Palau'', ''PLW''), (''Palestine'', ''PSE''),
     (''Panama'', ''PAN''), (''Papua New Guinea'', ''PNG''), (''Paraguay'', ''PRY''),
     (''Peru'', ''PER''), (''Philippines'', ''PHL''), (''Poland'', ''POL''),
     (''Portugal'', ''PRT''), (''Qatar'', ''QAT''), (''Romania'', ''ROU''),
     (''Russia'', ''RUS''), (''Rwanda'', ''RWA''), (''Saint Kitts and Nevis'', ''KNA''),
     (''Saint Lucia'', ''LCA''), (''Saint Vincent and the Grenadines'', ''VCT''),
     (''Samoa'', ''WSM''), (''San Marino'', ''SMR''), (''Sao Tome and Principe'', ''STP''),
     (''Saudi Arabia'', ''SAU''), (''Senegal'', ''SEN''), (''Serbia'', ''SRB''),
     (''Seychelles'', ''SYC''), (''Sierra Leone'', ''SLE''), (''Singapore'', ''SGP''),
     (''Slovakia'', ''SVK''), (''Slovenia'', ''SVN''), (''Solomon Islands'', ''SLB''),
     (''Somalia'', ''SOM''), (''South Africa'', ''ZAF''), (''South Sudan'', ''SSD''),
     (''Spain'', ''ESP''), (''Sri Lanka'', ''LKA''), (''Sudan'', ''SDN''),
     (''Suriname'', ''SUR''), (''Sweden'', ''SWE''), (''Switzerland'', ''CHE''),
     (''Syria'', ''SYR''), (''Taiwan'', ''TWN''), (''Tajikistan'', ''TJK''),
     (''Tanzania'', ''TZA''), (''Thailand'', ''THA''), (''Timor-Leste'', ''TLS''),
     (''Togo'', ''TGO''), (''Tonga'', ''TON''), (''Trinidad and Tobago'', ''TTO''),
     (''Tunisia'', ''TUN''), (''Turkey'', ''TUR''), (''Turkmenistan'', ''TKM''),
     (''Tuvalu'', ''TUV''), (''Uganda'', ''UGA''), (''Ukraine'', ''UKR''),
     (''United Arab Emirates'', ''ARE''), (''United Kingdom'', ''GBR''),
     (''United States'', ''USA''), (''Uruguay'', ''URY''), (''Uzbekistan'', ''UZB''),
     (''Vanuatu'', ''VUT''), (''Vatican City'', ''VAT''), (''Venezuela'', ''VEN''),
     (''Vietnam'', ''VNM''), (''Yemen'', ''YEM''), (''Zambia'', ''ZMB''),
     (''Zimbabwe'', ''ZWE'')]"

text \<open>
  A lookup \<open>countryNameToCode[name]\<close> gives the code of the entry, or \<open>undefined\<close>
  (\<open>None\<close>) when the table has no entry for the name.
\<close>

definition countryNameToCode :: "string \<Rightarrow> string option" where
  "countryNameToCode name = map_of countryTable name"

section \<open>Data\<close>

text \<open>The parts of a Lighthouse result that the program reads.\<close>

record network_request =
  resourceType :: string
  request_transferSize :: real

record lhr =
  performance_score :: real
  seo_score :: real
  first_contentful_paint :: "real option"
  total_byte_weight :: real
  network_requests :: "network_request list"

text \<open>The object \<open>getLighthouseScores\<close> returns; an object with string keys is an
  association list in insertion order.\<close>

record scores =
  performance :: real
  seo :: real
  pageLoadTime :: "real option"
  transferSize :: real
  transferSizeBreakdown :: "(string \<times> real) list"

text \<open>The body of the geo-location response, and the object \<open>getServerLocation\<close>
  builds from it.\<close>

record location_data =
  country_name :: string
  region_name :: string
  data_city :: string

record server_location =
  country :: string
  region :: string
  city :: string

record grid_options =
  dataCenter_country :: "string option"

record co2_trace =
  co2 :: real

record report =
  Eco_Score :: real
  Page_Weight :: real
  Weight_Breakdown :: "(string \<times> real) list"
  Emissions_per_page :: real
  Server_Location :: string
  Green_Hosting :: bool

text \<open>
  An exception is a value: \<open>Error msg\<close> is \<open>new Error(msg)\<close> thrown by the program
  itself, \<open>Collaborator_failure txt\<close> is whatever a library, the network or the file
  system threw, \<open>txt\<close> being its rendering as a string.
\<close>

datatype error = Error string | Collaborator_failure string

fun error_toString :: "error \<Rightarrow> string" where
  "error_toString (Error msg) = ''Error: '' @ msg"
| "error_toString (Collaborator_failure txt) = txt"

section \<open>Collaborators\<close>

text \<open>
  What the program calls and does not define: the browser and the audit engine, the URL
  parser, DNS, the geo-location service, the green-hosting directory, the emissions
  model, the file system and the JSON printer. Each is a function; one that can throw
  returns \<open>Inl\<close> with the rendering of what it threw. The emissions model takes its
  optional third argument, the options object, as an \<open>option\<close>. \<open>createWriteStream\<close>
  says whether the file of the given path can be opened for appending; a stream that
  opens is taken to accept every write. Console output is not modelled.
\<close>

record env =
  lighthouse :: "string \<Rightarrow> string + lhr"
  URL_hostname :: "string \<Rightarrow> string + string"
  dns_resolve4 :: "string \<Rightarrow> string + string list"
  axios_get :: "string \<Rightarrow> string + location_data"
  hosting_check :: "string \<Rightarrow> string + bool"
  perByteTrace :: "real \<Rightarrow> bool \<Rightarrow> grid_options option \<Rightarrow> string + co2_trace"
  readFileSync :: "string \<Rightarrow> string + string"
  createWriteStream :: "string \<Rightarrow> string + unit"
  path_resolve :: "string \<Rightarrow> string"
  JSON_stringify :: "report \<Rightarrow> string"

section \<open>The adapters\<close>

definition runLighthouse :: "env \<Rightarrow> string \<Rightarrow> error + lhr" where
  "runLighthouse env url =
     (case lighthouse env url of
        Inl txt \<Rightarrow> Inl (Collaborator_failure txt)
      | Inr l \<Rightarrow> Inr l)"

definition add_request :: "(string \<times> real) list \<Rightarrow> network_request \<Rightarrow> (string \<times> real) list" where
  "add_request acc request =
     (let rt = resourceType request;
          acc1 = (case map_of acc rt of
                    None \<Rightarrow> AList.update rt 0 acc
                  | Some v \<Rightarrow> if v = 0 then AList.update rt 0 acc else acc)
      in case map_of acc1 rt of
           None \<Rightarrow> acc1
         | Some v \<Rightarrow> AList.update rt (v + request_transferSize request / 1024) acc1)"

definition getLighthouseScores :: "lhr \<Rightarrow> scores" where
  "getLighthouseScores l =
     (let networkRequests = network_requests l;
          resourceBreakdown = foldl add_request [] networkRequests
      in \<lparr>performance = performance_score l * 100,
          seo = seo_score l * 100,
          pageLoadTime = map_option (\<lambda>v. v / 1000) (first_contentful_paint l),
          transferSize = total_byte_weight l / 1024,
          transferSizeBreakdown = resourceBreakdown\<rparr>)"

definition checkGreenHosting :: "env \<Rightarrow> string \<Rightarrow> bool" where
  "checkGreenHosting env domain =
     (case hosting_check env domain of
        Inr green \<Rightarrow> green
      | Inl txt \<Rightarrow> False)"

text \<open>
  \<open>calculateCO2\<close> builds the options object that names the country and then calls the
  model with two arguments: the third, the options, is absent at the call.
\<close>

definition calculateCO2 :: "env \<Rightarrow> real \<Rightarrow> string option \<Rightarrow> bool \<Rightarrow> string + co2_trace" where
  "calculateCO2 env pageWeight countryCode isGreenHost =
     (let optionsCalc = \<lparr>dataCenter_country = countryCode\<rparr>;
          estimatedCO2 = perByteTrace env pageWeight isGreenHost None
      in estimatedCO2)"

text \<open>The first address of an empty answer is \<open>undefined\<close>, which the template string
  prints as such.\<close>

definition getServerLocation :: "env \<Rightarrow> string \<Rightarrow> server_location option" where
  "getServerLocation env domain =
     (case dns_resolve4 env domain of
        Inl txt \<Rightarrow> None
      | Inr addresses \<Rightarrow>
          (let ipAddress = (case addresses of [] \<Rightarrow> ''undefined'' | a # _ \<Rightarrow> a)
           in case axios_get env (''https://freegeoip.app/json/'' @ ipAddress) of
                Inl txt \<Rightarrow> None
              | Inr locationData \<Rightarrow>
                  Some \<lparr>country = country_name locationData,
                        region = region_name locationData,
                        city = data_city locationData\<rparr>))"

definition formatUrl :: "string \<Rightarrow> string" where
  "formatUrl url =
     (if \<not> prefix ''http://'' url \<and> \<not> prefix ''https://'' url then ''http://'' @ url
      else url)"

section \<open>The scoring of one domain\<close>

definition getEcoScore :: "env \<Rightarrow> string \<Rightarrow> error + report" where
  "getEcoScore env url =
     (case runLighthouse env url of
        Inl e \<Rightarrow> Inl e
      | Inr l \<Rightarrow>
          (let scores = getLighthouseScores l;
               pageWeight = transferSize scores
           in case URL_hostname env url of
                Inl txt \<Rightarrow> Inl (Collaborator_failure txt)
              | Inr hostname \<Rightarrow>
                  (let serverLocation = getServerLocation env hostname;
                       isGreenHost = checkGreenHosting env hostname
                   in case serverLocation of
                        None \<Rightarrow> Inl (Error ''Could not determine server location'')
                      | Some location \<Rightarrow>
                          (let pageWeightBreakdown =
                                 foldl (\<lambda>acc (label, kb). AList.update label kb acc)
                                   [] (transferSizeBreakdown scores);
                               countryCode = countryNameToCode (country location)
                           in case calculateCO2 env (pageWeight * 1000) countryCode isGreenHost of
                                Inl txt \<Rightarrow> Inl (Collaborator_failure txt)
                              | Inr co2Emissions \<Rightarrow>
                                  Inr \<lparr>Eco_Score =
                                         Eco_Score_of (performance scores) (seo scores)
                                           (pageLoadTime scores) (co2 co2Emissions),
                                       Page_Weight = transferSize scores,
                                       Weight_Breakdown = pageWeightBreakdown,
                                       Emissions_per_page = co2 co2Emissions,
                                       Server_Location = country location,
                                       Green_Hosting = isGreenHost\<rparr>))))"

section \<open>The batch\<close>

text \<open>Characters are code units below 256; these are the ones \<open>trim\<close> removes.\<close>

definition is_white_space :: "char \<Rightarrow> bool" where
  "is_white_space c =
     (c \<in> set [CHR 0x09, CHR 0x0A, CHR 0x0B, CHR 0x0C, CHR 0x0D, CHR 0x20, CHR 0xA0])"

definition trim :: "string \<Rightarrow> string" where
  "trim s = rev (dropWhile is_white_space (rev (dropWhile is_white_space s)))"

fun split_newline :: "string \<Rightarrow> string list" where
  "split_newline [] = [[]]"
| "split_newline (c # cs) =
     (if c = CHR 0x0A then [] # split_newline cs
      else (case split_newline cs of
              [] \<Rightarrow> [[c]]
            | line # lines \<Rightarrow> (c # line) # lines))"

definition subdomains_of :: "string \<Rightarrow> string list" where
  "subdomains_of data = filter (\<lambda>line. length line > 0) (map trim (split_newline data))"

text \<open>
  The loop over the subdomains threads the text written to the stream so far, one list
  element for each \<open>write\<close>. The value of \<open>processSubdomains\<close> is the text it writes to
  the stream it has opened on \<open>outputFilePath\<close>. The stream is opened before the \<open>try\<close>
  and has no listener for its \<open>error\<close> event: a failure to open it is not an exception of
  this function, it ends the process, and is part of \<open>main\<close> below.
\<close>

fun for_subdomains :: "env \<Rightarrow> string list \<Rightarrow> string list \<Rightarrow> string list" where
  "for_subdomains env [] writeStream = writeStream"
| "for_subdomains env (s # rest) writeStream =
     (let subdomain = formatUrl s;
          writeStream1 = writeStream @ [''Calculate for '' @ subdomain @ '':'' @ [CHR 0x0A]]
      in for_subdomains env rest
           (case getEcoScore env subdomain of
              Inr eco \<Rightarrow>
                writeStream1
                  @ [''Little Forest Eco Score >> '' @ JSON_stringify env eco @ '' <<''
                       @ [CHR 0x0A]]
                  @ [''----------------------------------'' @ [CHR 0x0A]]
            | Inl error \<Rightarrow>
                writeStream1
                  @ [''Error calculating Eco Score for '' @ subdomain @ '': ''
                       @ error_toString error @ [CHR 0x0A]]))"

definition processSubdomains :: "env \<Rightarrow> string \<Rightarrow> string \<Rightarrow> string list" where
  "processSubdomains env filePath outputFilePath =
     (case readFileSync env filePath of
        Inr data \<Rightarrow> for_subdomains env (subdomains_of data) []
      | Inl txt \<Rightarrow> [])"

section \<open>The command line\<close>

record args =
  urls :: "string option"
  scoresfile :: "string option"

text \<open>
  The loop of \<open>parseArgs\<close> over the index, as a recursion over what is left of \<open>argv\<close>:
  a flag is taken with the argument after it when that argument is there and not empty,
  and the index then skips both.
\<close>

fun parseArgs_from :: "string list \<Rightarrow> args \<Rightarrow> args" where
  "parseArgs_from (a # b # rest) args =
     (if a = ''--urls'' \<and> b \<noteq> [] then parseArgs_from rest (args\<lparr>urls := Some b\<rparr>)
      else if a = ''--scoresfile'' \<and> b \<noteq> [] then parseArgs_from rest (args\<lparr>scoresfile := Some b\<rparr>)
      else parseArgs_from (b # rest) args)"
| "parseArgs_from [a] args = args"
| "parseArgs_from [] args = args"

definition parseArgs :: "string list \<Rightarrow> args" where
  "parseArgs argv = parseArgs_from argv \<lparr>urls = None, scoresfile = None\<rparr>"

text \<open>
  A run of the program: the status the process ends with and the text appended to the
  output file. \<open>argv\<close> is \<open>process.argv\<close> after its first two entries.
  \<open>process.exit(1)\<close> ends the run with status 1. When the output stream cannot be opened,
  its \<open>error\<close> event finds no listener: the process ends with status 1 and nothing is
  appended. A run that comes to its end otherwise ends with status 0, and what was written
  to the stream is what is appended.
\<close>

record run =
  exit_status :: nat
  appended :: "string list"

definition main :: "env \<Rightarrow> string list \<Rightarrow> run" where
  "main env argv =
     (let args = parseArgs argv;
          subdomainsFilePath = urls args;
          outputFilePath = scoresfile args
      in case (subdomainsFilePath, outputFilePath) of
           (Some u, Some out) \<Rightarrow>
             (let resolvedSubdomainsPath = path_resolve env u;
                  resolvedOutputPath = path_resolve env out;
                  written = processSubdomains env resolvedSubdomainsPath resolvedOutputPath
              in case createWriteStream env resolvedOutputPath of
                   Inr opened \<Rightarrow> \<lparr>exit_status = 0, appended = written\<rparr>
                 | Inl txt \<Rightarrow> \<lparr>exit_status = 1, appended = []\<rparr>)
         | _ \<Rightarrow> \<lparr>exit_status = 1, appended = []\<rparr>)"

section \<open>Notions of the specification\<close>

text \<open>The preconditions of the data model on the measurements of one audit.\<close>

definition valid_measurements :: "scores \<Rightarrow> bool" where
  "valid_measurements sc =
     (0 \<le> performance sc \<and> performance sc \<le> 100 \<and> 0 \<le> seo sc \<and> seo sc \<le> 100
      \<and> (case pageLoadTime sc of None \<Rightarrow> True | Some t \<Rightarrow> 0 \<le> t)
      \<and> 0 \<le> transferSize sc)"

text \<open>
  The two blocks of the report: what the output holds for a domain that was scored, and
  for a domain whose scoring failed.
\<close>

definition score_block :: "env \<Rightarrow> string \<Rightarrow> report \<Rightarrow> string list" where
  "score_block env subdomain eco =
     [''Calculate for '' @ subdomain @ '':'' @ [CHR 0x0A],
      ''Little Forest Eco Score >> '' @ JSON_stringify env eco @ '' <<'' @ [CHR 0x0A],
      ''----------------------------------'' @ [CHR 0x0A]]"

definition error_block :: "string \<Rightarrow> error \<Rightarrow> string list" where
  "error_block subdomain e =
     [''Calculate for '' @ subdomain @ '':'' @ [CHR 0x0A],
      ''Error calculating Eco Score for '' @ subdomain @ '': '' @ error_toString e @ [CHR 0x0A]]"

definition domain_block :: "env \<Rightarrow> string \<Rightarrow> string list" where
  "domain_block env s =
     (case getEcoScore env (formatUrl s) of
        Inr eco \<Rightarrow> score_block env (formatUrl s) eco
      | Inl e \<Rightarrow> error_block (formatUrl s) e)"

section \<open>A concrete world\<close>

text \<open>
  Collaborators to run the program on: three domains of which the second cannot be
  audited, a domain without an address, an emissions model that answers with the number
  of bytes it was given, one readable input file, and output files that can be opened
  unless they are in the directory \<open>no-such-dir\<close>.
\<close>

definition demo_lhr :: lhr where
  "demo_lhr =
     \<lparr>performance_score = 9 / 10, seo_score = 85 / 100, first_contentful_paint = Some 1200,
      total_byte_weight = 1024,
      network_requests =
        [\<lparr>resourceType = ''Document'', request_transferSize = 512\<rparr>,
         \<lparr>resourceType = ''Script'', request_transferSize = 256\<rparr>,
         \<lparr>resourceType = ''Document'', request_transferSize = 256\<rparr>]\<rparr>"

definition inflated_lhr :: lhr where
  "inflated_lhr =
     \<lparr>performance_score = 5, seo_score = 1, first_contentful_paint = None,
      total_byte_weight = 0, network_requests = []\<rparr>"

definition demo_urls :: string where
  "demo_urls =
     ''a.example'' @ [CHR 0x0A] @ ''  b.example '' @ [CHR 0x0A] @ [CHR 0x0A]
       @ ''https://c.example'' @ [CHR 0x0A]"

definition demo_env :: env where
  "demo_env =
     \<lparr>lighthouse =
        (\<lambda>url. if url = ''http://b.example'' then Inl ''Error: audit failed''
              else if url = ''http://inflated.example'' then Inr inflated_lhr
              else Inr demo_lhr),
      URL_hostname =
        (\<lambda>url. if prefix ''https://'' url then Inr (drop 8 url)
              else if prefix ''http://'' url then Inr (drop 7 url)
              else Inl ''TypeError: Invalid URL''),
      dns_resolve4 =
        (\<lambda>domain. if domain = ''nowhere.example'' then Inl ''Error: queryA ENOTFOUND''
                 else Inr [''192.0.2.1'']),
      axios_get =
        (\<lambda>u. Inr \<lparr>country_name = ''Germany'', region_name = ''Hesse'',
                    data_city = ''Frankfurt''\<rparr>),
      hosting_check = (\<lambda>domain. Inr True),
      perByteTrace = (\<lambda>bytes green options. Inr \<lparr>co2 = bytes\<rparr>),
      readFileSync =
        (\<lambda>path. if path = ''urls.txt'' then Inr demo_urls
               else Inl ''Error: ENOENT: no such file or directory''),
      createWriteStream =
        (\<lambda>path. if prefix ''no-such-dir/'' path
               then Inl ''Error: ENOENT: no such file or directory''
               else Inr ()),
      path_resolve = (\<lambda>p. p),
      JSON_stringify = (\<lambda>r. ''{}'')\<rparr>"

text \<open>The reports of the first domain and of a domain whose audit is out of range.\<close>

definition demo_report :: report where
  "demo_report =
     \<lparr>Eco_Score = 38, Page_Weight = 1,
      Weight_Breakdown = [(''Document'', 3 / 4), (''Script'', 1 / 4)],
      Emissions_per_page = 1000, Server_Location = ''Germany'', Green_Hosting = True\<rparr>"

definition inflated_report :: report where
  "inflated_report =
     \<lparr>Eco_Score = 100, Page_Weight = 0, Weight_Breakdown = [],
      Emissions_per_page = 0, Server_Location = ''Germany'', Green_Hosting = True\<rparr>"

section \<open>Rounding and the sub-scores\<close>

lemmas weights =
  CO2_GOAL_def PAGE_LOAD_TIME_GOAL_SECONDS_def SEO_GOAL_def PERFORMANCE_WEIGHT_def
  SEO_WEIGHT_def CO2_WEIGHT_def PAGE_LOAD_TIME_WEIGHT_def

lemmas score_defs =
  co2Score_def performanceScore_def seoScore_def pageLoadTimeScore_def
  weightedPageLoadTimeScore_def ecoScore_def Eco_Score_of_def Math_round_def Math_min_def

lemma Math_round_mono: "x \<le> y \<Longrightarrow> Math_round x \<le> Math_round y"
  by (simp add: Math_round_def floor_mono)

lemma Math_round_Ints: "Math_round x \<in> \<int>"
  by (simp add: Math_round_def)

lemma Math_round_numeral: "Math_round (numeral n) = numeral n"
  by (simp add: Math_round_def)

lemma Math_round_zero: "Math_round 0 = 0"
  by (simp add: Math_round_def)

lemma Math_round_bounds:
  assumes "0 \<le> x" "x \<le> numeral n"
  shows "0 \<le> Math_round x \<and> Math_round x \<le> numeral n"
  using Math_round_mono [OF assms(1)] Math_round_mono [OF assms(2)]
  by (simp add: Math_round_zero Math_round_numeral)

lemma Math_min_Ints: "a \<in> \<int> \<Longrightarrow> b \<in> \<int> \<Longrightarrow> Math_min a b \<in> \<int>"
  by (simp add: Math_min_def)

lemma Math_min_mono: "a \<le> b \<Longrightarrow> Math_min a c \<le> Math_min b c"
  by (simp add: Math_min_def)

text \<open>For positive emissions the CO2 sub-score is \<open>24 / e\<close>, rounded and capped at 40.\<close>

lemma co2Score_positive: "0 < e \<Longrightarrow> co2Score e = Math_min (Math_round (24 / e)) 40"
  by (simp add: co2Score_def weights)

lemma co2Score_Ints: "co2Score e \<in> \<int>"
  by (simp add: co2Score_def Math_min_Ints Math_round_Ints weights)

lemma co2Score_bounds:
  assumes "0 \<le> e"
  shows "0 \<le> co2Score e \<and> co2Score e \<le> 40"
proof (cases "e = 0")
  case True
  then show ?thesis by (simp add: co2Score_def weights)
next
  case False
  with assms have pos: "0 < e" by simp
  have "0 \<le> Math_round (24 / e)"
    using Math_round_mono [of 0 "24 / e"] pos by (simp add: Math_round_zero)
  then show ?thesis
    by (simp add: co2Score_positive [OF pos] Math_min_def)
qed

lemma performanceScore_Ints: "performanceScore p \<in> \<int>"
  by (simp add: performanceScore_def Math_round_Ints)

lemma performanceScore_bounds:
  assumes "0 \<le> p" "p \<le> 100"
  shows "0 \<le> performanceScore p \<and> performanceScore p \<le> 20"
  unfolding performanceScore_def
  using assms by (intro Math_round_bounds) (simp_all add: weights)

lemma seoScore_Ints: "seoScore s \<in> \<int>"
  by (simp add: seoScore_def Math_round_Ints)

text \<open>
  The ratio of a percentage to the goal is at most \<open>100 / 85\<close>, a fifth of it is less
  than a half, and so it rounds to 0: a valid SEO percentage adds nothing to the total.
\<close>

lemma seoScore_valid:
  assumes "0 \<le> s" "s \<le> 100"
  shows "seoScore s = 0"
proof -
  have "s / 85 \<le> 100" using assms by simp
  then have eq: "Math_min (s / SEO_GOAL) 100 * SEO_WEIGHT = s / 425"
    by (simp add: Math_min_def weights)
  have "0 \<le> s / 425 + 1 / 2" "s / 425 + 1 / 2 < 1"
    using assms by simp_all
  then have "\<lfloor>s / 425 + 1 / 2\<rfloor> = 0"
    by (simp add: floor_eq_iff)
  then show ?thesis
    unfolding seoScore_def eq Math_round_def by simp
qed

lemma pageLoadTimeScore_bounds:
  "0 \<le> pageLoadTimeScore plt \<and> pageLoadTimeScore plt \<le> 100"
proof (cases "(case plt of None \<Rightarrow> 0 | Some t \<Rightarrow> t) \<le> PAGE_LOAD_TIME_GOAL_SECONDS")
  case True
  then show ?thesis by (simp add: pageLoadTimeScore_def)
next
  case False
  define t where "t = (case plt of None \<Rightarrow> 0 | Some t \<Rightarrow> t)"
  from False have slow: "34 / 10 < t" by (simp add: t_def weights)
  then have "0 \<le> 34 / 10 / t * 100" "34 / 10 / t * 100 \<le> 100"
    by (simp_all add: field_simps)
  then have "0 \<le> Math_round (34 / 10 / t * 100) \<and> Math_round (34 / 10 / t * 100) \<le> 100"
    by (rule Math_round_bounds)
  with False show ?thesis
    by (simp add: pageLoadTimeScore_def t_def weights)
qed

lemma weightedPageLoadTimeScore_Ints: "weightedPageLoadTimeScore plt \<in> \<int>"
  by (simp add: weightedPageLoadTimeScore_def Math_round_Ints)

lemma weightedPageLoadTimeScore_bounds:
  "0 \<le> weightedPageLoadTimeScore plt \<and> weightedPageLoadTimeScore plt \<le> 20"
  unfolding weightedPageLoadTimeScore_def
  using pageLoadTimeScore_bounds [of plt]
  by (intro Math_round_bounds) (simp_all add: weights)

lemma weightedPageLoadTimeScore_fast:
  assumes "t \<le> 34 / 10"
  shows "weightedPageLoadTimeScore (Some t) = 20"
  using assms
  by (simp add: weightedPageLoadTimeScore_def pageLoadTimeScore_def Math_round_def weights)

lemma weightedPageLoadTimeScore_slow:
  assumes "34 / 10 < t"
  shows "weightedPageLoadTimeScore (Some t) =
           real_of_int \<lfloor>real_of_int \<lfloor>340 / t + 1 / 2\<rfloor> / 5 + 1 / 2\<rfloor>"
  using assms
  by (simp add: weightedPageLoadTimeScore_def pageLoadTimeScore_def Math_round_def weights)

text \<open>
  In exact arithmetic the weighted score stays at 20 as long as the unweighted one is at
  least 98, that is up to a load time of \<open>340 / 97.5 = 136 / 39\<close> seconds. At that load
  time the unweighted score is the tie 97.5 before rounding, so within a rounding error of
  it the doubles of the program can land on either side.
\<close>

lemma weightedPageLoadTimeScore_less_iff:
  "weightedPageLoadTimeScore (Some t) < 20 \<longleftrightarrow> 136 / 39 < t"
proof (cases "t \<le> 34 / 10")
  case True
  then show ?thesis by (simp add: weightedPageLoadTimeScore_fast)
next
  case False
  then have slow: "34 / 10 < t" by simp
  then have tpos: "0 < t" by simp
  define r where "r = \<lfloor>340 / t + 1 / 2\<rfloor>"
  have "real_of_int \<lfloor>real_of_int r / 5 + 1 / 2\<rfloor> < 20
          \<longleftrightarrow> \<lfloor>real_of_int r / 5 + 1 / 2\<rfloor> < 20"
    by linarith
  also have "\<dots> \<longleftrightarrow> real_of_int r / 5 + 1 / 2 < 20"
    by (simp add: floor_less_iff)
  also have "\<dots> \<longleftrightarrow> r < 98"
    by linarith
  also have "\<dots> \<longleftrightarrow> 340 / t + 1 / 2 < 98"
    unfolding r_def by (simp add: floor_less_iff)
  also have "\<dots> \<longleftrightarrow> 136 / 39 < t"
    using tpos by (simp add: field_simps)
  finally show ?thesis
    by (simp add: weightedPageLoadTimeScore_slow [OF slow] r_def)
qed

lemma ecoScore_Ints: "ecoScore p s plt e \<in> \<int>"
  by (simp add: ecoScore_def performanceScore_Ints seoScore_Ints
      weightedPageLoadTimeScore_Ints co2Score_Ints)

lemma Eco_Score_of_Ints: "Eco_Score_of p s plt e \<in> \<int>"
  by (simp add: Eco_Score_of_def Math_min_Ints ecoScore_Ints)

text \<open>With the SEO sub-score at 0, the total of valid measurements is at most 80.\<close>

lemma Eco_Score_of_bounds:
  assumes "0 \<le> p" "p \<le> 100" "0 \<le> s" "s \<le> 100" "0 \<le> e"
  shows "0 \<le> Eco_Score_of p s plt e \<and> Eco_Score_of p s plt e \<le> 80"
  using performanceScore_bounds [OF assms(1,2)] seoScore_valid [OF assms(3,4)]
    weightedPageLoadTimeScore_bounds [of plt] co2Score_bounds [OF assms(5)]
  by (simp add: Eco_Score_of_def ecoScore_def Math_min_def)

section \<open>The pipeline\<close>

lemma getEcoScore_fields:
  assumes "getEcoScore env url = Inr r" and "runLighthouse env url = Inr l"
  shows "Eco_Score r =
           Eco_Score_of (performance (getLighthouseScores l)) (seo (getLighthouseScores l))
             (pageLoadTime (getLighthouseScores l)) (Emissions_per_page r)
         \<and> Page_Weight r = total_byte_weight l / 1024"
  using assms
  by (auto simp: getEcoScore_def Let_def getLighthouseScores_def
      split: sum.splits option.splits)

lemma for_subdomains_blocks:
  "for_subdomains env ds ws = ws @ concat (map (domain_block env) ds)"
  by (induction ds arbitrary: ws)
     (simp_all add: domain_block_def score_block_def error_block_def Let_def
        split: sum.splits)

section \<open>The program in the concrete world\<close>

lemma demo_scores:
  "getLighthouseScores demo_lhr =
     \<lparr>performance = 90, seo = 85, pageLoadTime = Some (12 / 10), transferSize = 1,
      transferSizeBreakdown = [(''Document'', 3 / 4), (''Script'', 1 / 4)]\<rparr>"
  by (simp add: getLighthouseScores_def demo_lhr_def add_request_def)

lemma inflated_scores:
  "getLighthouseScores inflated_lhr =
     \<lparr>performance = 500, seo = 100, pageLoadTime = None, transferSize = 0,
      transferSizeBreakdown = []\<rparr>"
  by (simp add: getLighthouseScores_def inflated_lhr_def)

lemma demo_runLighthouse_a: "runLighthouse demo_env ''http://a.example'' = Inr demo_lhr"
  by (simp add: runLighthouse_def demo_env_def)

lemma demo_runLighthouse_inflated:
  "runLighthouse demo_env ''http://inflated.example'' = Inr inflated_lhr"
  by (simp add: runLighthouse_def demo_env_def)

lemma demo_getEcoScore_a: "getEcoScore demo_env ''http://a.example'' = Inr demo_report"
  by (simp add: getEcoScore_def demo_runLighthouse_a demo_scores demo_report_def)
     (simp add: demo_env_def getServerLocation_def checkGreenHosting_def calculateCO2_def
        score_defs weights)

lemma demo_getEcoScore_inflated:
  "getEcoScore demo_env ''http://inflated.example'' = Inr inflated_report"
  by (simp add: getEcoScore_def demo_runLighthouse_inflated inflated_scores inflated_report_def)
     (simp add: demo_env_def getServerLocation_def checkGreenHosting_def calculateCO2_def
        score_defs weights)

lemma demo_subdomains:
  "subdomains_of demo_urls = [''a.example'', ''b.example'', ''https://c.example'']"
  by (simp add: subdomains_of_def demo_urls_def trim_def is_white_space_def)

lemma demo_runLighthouse_c: "runLighthouse demo_env ''https://c.example'' = Inr demo_lhr"
  by (simp add: runLighthouse_def demo_env_def)

lemma demo_getEcoScore_b:
  "getEcoScore demo_env ''http://b.example'' = Inl (Collaborator_failure ''Error: audit failed'')"
  by (simp add: getEcoScore_def runLighthouse_def demo_env_def)

lemma demo_getEcoScore_c: "getEcoScore demo_env ''https://c.example'' = Inr demo_report"
  by (simp add: getEcoScore_def demo_runLighthouse_c demo_scores demo_report_def)
     (simp add: demo_env_def getServerLocation_def checkGreenHosting_def calculateCO2_def
        score_defs weights)

lemma demo_formatUrl:
  "formatUrl ''a.example'' = ''http://a.example''"
  "formatUrl ''b.example'' = ''http://b.example''"
  "formatUrl ''https://c.example'' = ''https://c.example''"
  by (simp_all add: formatUrl_def)

lemma demo_readFileSync: "readFileSync demo_env ''urls.txt'' = Inr demo_urls"
  by (simp add: demo_env_def)

lemma demo_argv_missing:
  "parseArgs [''--urls'', ''missing.txt'', ''--scoresfile'', ''scores.txt'']
     = \<lparr>urls = Some ''missing.txt'', scoresfile = Some ''scores.txt''\<rparr>"
  by (simp add: parseArgs_def)

lemma demo_readFileSync_missing:
  "readFileSync demo_env (path_resolve demo_env ''missing.txt'')
     = Inl ''Error: ENOENT: no such file or directory''"
  by (simp add: demo_env_def)

lemma demo_createWriteStream:
  "createWriteStream demo_env (path_resolve demo_env ''scores.txt'') = Inr ()"
  by (simp add: demo_env_def)

lemma demo_hostname_nowhere:
  "URL_hostname demo_env ''http://nowhere.example'' = Inr ''nowhere.example''"
  by (simp add: demo_env_def)

lemma demo_hostname_a:
  "URL_hostname demo_env ''http://a.example'' = Inr ''a.example''"
  by (simp add: demo_env_def)

lemma demo_runLighthouse_nowhere:
  "runLighthouse demo_env ''http://nowhere.example'' = Inr demo_lhr"
  by (simp add: runLighthouse_def demo_env_def)

lemma demo_location_nowhere: "getServerLocation demo_env ''nowhere.example'' = None"
  by (simp add: getServerLocation_def demo_env_def)

lemma demo_location_a:
  "getServerLocation demo_env ''a.example''
     = Some \<lparr>country = ''Germany'', region = ''Hesse'', city = ''Frankfurt''\<rparr>"
  by (simp add: getServerLocation_def demo_env_def)

section \<open>The claims\<close>

text \<open>
  C1. When the measurements of a domain satisfy the preconditions of the data model
  (performance and SEO percentages in [0,100], a load time that is not negative or is
  NaN, emissions that are not negative), the \<open>Eco Score\<close> field of the report that
  \<open>getEcoScore\<close> returns is an integer between 0 and 100. Whatever the measurements,
  when the four sub-scores sum to more than 100 the field is exactly 100.
\<close>

theorem eco_score_in_range:
  assumes "getEcoScore env url = Inr r" and "runLighthouse env url = Inr l"
  shows "(valid_measurements (getLighthouseScores l) \<and> 0 \<le> Emissions_per_page r
            \<longrightarrow> Eco_Score r \<in> \<int> \<and> 0 \<le> Eco_Score r \<and> Eco_Score r \<le> 100)
         \<and> (100 < ecoScore (performance (getLighthouseScores l)) (seo (getLighthouseScores l))
                     (pageLoadTime (getLighthouseScores l)) (Emissions_per_page r)
            \<longrightarrow> Eco_Score r = 100)"
proof -
  note fields = getEcoScore_fields [OF assms]
  have in_range: "Eco_Score r \<in> \<int> \<and> 0 \<le> Eco_Score r \<and> Eco_Score r \<le> 100"
    if valid: "valid_measurements (getLighthouseScores l)" and e: "0 \<le> Emissions_per_page r"
  proof -
    from valid have
      "0 \<le> performance (getLighthouseScores l)" "performance (getLighthouseScores l) \<le> 100"
      "0 \<le> seo (getLighthouseScores l)" "seo (getLighthouseScores l) \<le> 100"
      by (simp_all add: valid_measurements_def)
    from Eco_Score_of_bounds [OF this e, of "pageLoadTime (getLighthouseScores l)"]
    show ?thesis
      using fields by (simp add: Eco_Score_of_Ints)
  qed
  have capped: "Eco_Score r = 100"
    if "100 < ecoScore (performance (getLighthouseScores l)) (seo (getLighthouseScores l))
                  (pageLoadTime (getLighthouseScores l)) (Emissions_per_page r)"
    using that fields by (simp add: Eco_Score_of_def Math_min_def)
  from in_range capped show ?thesis by blast
qed

theorem eco_score_in_range_witness:
  "getEcoScore demo_env ''http://a.example'' = Inr demo_report
   \<and> runLighthouse demo_env ''http://a.example'' = Inr demo_lhr
   \<and> valid_measurements (getLighthouseScores demo_lhr)
   \<and> 0 \<le> Emissions_per_page demo_report
   \<and> Eco_Score demo_report \<in> \<int> \<and> 0 \<le> Eco_Score demo_report \<and> Eco_Score demo_report \<le> 100
   \<and> getEcoScore demo_env ''http://inflated.example'' = Inr inflated_report
   \<and> runLighthouse demo_env ''http://inflated.example'' = Inr inflated_lhr
   \<and> 100 < ecoScore (performance (getLighthouseScores inflated_lhr))
                (seo (getLighthouseScores inflated_lhr))
                (pageLoadTime (getLighthouseScores inflated_lhr))
                (Emissions_per_page inflated_report)
   \<and> Eco_Score inflated_report = 100"
proof -
  have valid: "valid_measurements (getLighthouseScores demo_lhr)"
    by (simp add: demo_scores valid_measurements_def)
  have e: "0 \<le> Emissions_per_page demo_report"
    by (simp add: demo_report_def)
  have above: "100 < ecoScore (performance (getLighthouseScores inflated_lhr))
                        (seo (getLighthouseScores inflated_lhr))
                        (pageLoadTime (getLighthouseScores inflated_lhr))
                        (Emissions_per_page inflated_report)"
    by (simp add: inflated_scores inflated_report_def score_defs weights)
  from eco_score_in_range [OF demo_getEcoScore_a demo_runLighthouse_a]
       eco_score_in_range [OF demo_getEcoScore_inflated demo_runLighthouse_inflated]
       valid e above demo_getEcoScore_a demo_runLighthouse_a
       demo_getEcoScore_inflated demo_runLighthouse_inflated
  show ?thesis by blast
qed

text \<open>
  C2. The code at the inputs of the claim: an SEO percentage of 85 (the percentage of the
  audit \<open>demo_lhr\<close>) has the SEO sub-score 0 and a percentage of 1000 has the sub-score
  2; the two differ and neither is 20.
\<close>

theorem seo_score_at_85_and_1000:
  "seo (getLighthouseScores demo_lhr) = 85 \<and> seoScore 85 = 0 \<and> seoScore 1000 = 2"
  by (simp add: demo_scores seoScore_def Math_round_def Math_min_def weights)

text \<open>
  C3, as amended. The weighted page-load sub-score is 20 for every load time of at most
  3.4 seconds and for a NaN load time, and it is never more than 20. Above 3.4 seconds it
  is not at once below 20: it is still 20 for every load time of at most 3.487 seconds,
  and it is below 20 for every load time of at least 3.488 seconds. Between the two lies
  \<open>136 / 39\<close>, where the outcome hangs on the rounding of the doubles; nothing is stated
  there.
\<close>

theorem page_load_score_full_or_less:
  "(t \<le> 34 / 10 \<longrightarrow> weightedPageLoadTimeScore (Some t) = 20)
   \<and> weightedPageLoadTimeScore None = 20
   \<and> weightedPageLoadTimeScore (Some t) \<le> 20
   \<and> (t \<le> 3487 / 1000 \<longrightarrow> weightedPageLoadTimeScore (Some t) = 20)
   \<and> (3488 / 1000 \<le> t \<longrightarrow> weightedPageLoadTimeScore (Some t) < 20)"
proof -
  have nan: "weightedPageLoadTimeScore None = 20"
    by (simp add: weightedPageLoadTimeScore_def pageLoadTimeScore_def Math_round_def weights)
  have le: "weightedPageLoadTimeScore (Some t) \<le> 20"
    using weightedPageLoadTimeScore_bounds [of "Some t"] by simp
  have still: "weightedPageLoadTimeScore (Some t) = 20" if "t \<le> 3487 / 1000"
  proof -
    from that have "\<not> 136 / 39 < t" by simp
    then have "\<not> weightedPageLoadTimeScore (Some t) < 20"
      by (simp add: weightedPageLoadTimeScore_less_iff)
    with le show ?thesis by simp
  qed
  have below: "weightedPageLoadTimeScore (Some t) < 20" if "3488 / 1000 \<le> t"
  proof -
    from that have "136 / 39 < t" by simp
    then show ?thesis by (simp add: weightedPageLoadTimeScore_less_iff)
  qed
  from nan le still below show ?thesis
    by (simp add: weightedPageLoadTimeScore_fast)
qed

theorem page_load_score_full_or_less_witness:
  "(3::real) \<le> 34 / 10 \<and> weightedPageLoadTimeScore (Some 3) = 20
   \<and> (345 / 100 :: real) \<le> 3487 / 1000 \<and> weightedPageLoadTimeScore (Some (345 / 100)) = 20
   \<and> (3488 / 1000 :: real) \<le> 4 \<and> weightedPageLoadTimeScore (Some 4) < 20
   \<and> weightedPageLoadTimeScore (Some 4) \<le> 20"
  using page_load_score_full_or_less [of 3] page_load_score_full_or_less [of "345 / 100"]
    page_load_score_full_or_less [of 4]
  by simp

text \<open>
  The claim as it was stated fails at a load time of 3.45 seconds: it is above 3.4 and
  the sub-score is 20, since \<open>340 / 3.45\<close> rounds to 99 and \<open>99 \<times> 0.2 = 19.8\<close> rounds
  to 20.
\<close>

theorem page_load_score_counterexample:
  "(34 / 10 :: real) < 345 / 100 \<and> \<not> weightedPageLoadTimeScore (Some (345 / 100)) < 20"
  by (simp add: weightedPageLoadTimeScore_def pageLoadTimeScore_def Math_round_def weights)

text \<open>
  C4. The code: the estimate of \<open>calculateCO2\<close> is the same for any two country codes,
  present or absent, whatever the emissions model, the page weight and the green-hosting
  flag are. The options object that holds the country code is built and not handed on.
\<close>

theorem calculateCO2_ignores_country:
  "calculateCO2 env pageWeight countryCode isGreenHost
     = calculateCO2 env pageWeight countryCode' isGreenHost"
  by (simp add: calculateCO2_def)

text \<open>
  C5. The code at a page of 1024 bytes: the audit \<open>demo_lhr\<close> has a total byte weight of
  1024, the emissions model of \<open>demo_env\<close> answers with the byte count it is given, and
  the emissions in the report are 1000. The weight is divided by 1024 and multiplied by
  1000 on its way to the model.
\<close>

theorem bytes_handed_to_model_at_1024:
  "runLighthouse demo_env ''http://a.example'' = Inr demo_lhr
   \<and> total_byte_weight demo_lhr = 1024
   \<and> perByteTrace demo_env = (\<lambda>bytes green options. Inr \<lparr>co2 = bytes\<rparr>)
   \<and> getEcoScore demo_env ''http://a.example'' = Inr demo_report
   \<and> Emissions_per_page demo_report = 1000"
  by (simp add: demo_runLighthouse_a demo_getEcoScore_a)
     (simp add: demo_lhr_def demo_env_def demo_report_def)

text \<open>
  C6. When the input file can be read, the text appended to the output is the
  concatenation, in the order of the input, of one block for each subdomain of the file: the
  error block that names the domain when its scoring failed, at whatever stage, and the
  score block otherwise. In particular a domain whose scoring fails has an error block,
  the domains after it are still processed, and a file of three domains of which only the
  second fails gives a score block, an error block and a score block.
\<close>

theorem batch_isolation:
  assumes "readFileSync env filePath = Inr data"
  shows "processSubdomains env filePath outputFilePath
           = concat (map (domain_block env) (subdomains_of data))
         \<and> (k < length (subdomains_of data)
              \<and> getEcoScore env (formatUrl (subdomains_of data ! k)) = Inl e
            \<longrightarrow> domain_block env (subdomains_of data ! k)
                  = error_block (formatUrl (subdomains_of data ! k)) e)
         \<and> (subdomains_of data = [d1, d2, d3]
              \<and> getEcoScore env (formatUrl d1) = Inr r1
              \<and> getEcoScore env (formatUrl d2) = Inl e2
              \<and> getEcoScore env (formatUrl d3) = Inr r3
            \<longrightarrow> processSubdomains env filePath outputFilePath
                  = score_block env (formatUrl d1) r1 @ error_block (formatUrl d2) e2
                      @ score_block env (formatUrl d3) r3)"
proof -
  have whole: "processSubdomains env filePath outputFilePath
                 = concat (map (domain_block env) (subdomains_of data))"
    using assms by (simp add: processSubdomains_def for_subdomains_blocks)
  have kth: "domain_block env s = error_block (formatUrl s) e"
    if "getEcoScore env (formatUrl s) = Inl e" for s
    using that by (simp add: domain_block_def)
  have three: "processSubdomains env filePath outputFilePath
                 = score_block env (formatUrl d1) r1 @ error_block (formatUrl d2) e2
                     @ score_block env (formatUrl d3) r3"
    if "subdomains_of data = [d1, d2, d3]" "getEcoScore env (formatUrl d1) = Inr r1"
       "getEcoScore env (formatUrl d2) = Inl e2" "getEcoScore env (formatUrl d3) = Inr r3"
    using that by (simp add: whole domain_block_def)
  from whole kth three show ?thesis by blast
qed

theorem batch_isolation_witness:
  "readFileSync demo_env ''urls.txt'' = Inr demo_urls
   \<and> subdomains_of demo_urls = [''a.example'', ''b.example'', ''https://c.example'']
   \<and> (1::nat) < length (subdomains_of demo_urls)
   \<and> getEcoScore demo_env (formatUrl ''a.example'') = Inr demo_report
   \<and> getEcoScore demo_env (formatUrl ''b.example'')
       = Inl (Collaborator_failure ''Error: audit failed'')
   \<and> getEcoScore demo_env (formatUrl ''https://c.example'') = Inr demo_report
   \<and> domain_block demo_env (subdomains_of demo_urls ! 1)
       = error_block ''http://b.example'' (Collaborator_failure ''Error: audit failed'')
   \<and> processSubdomains demo_env ''urls.txt'' ''scores.txt''
       = [''Calculate for http://a.example:'' @ [CHR 0x0A],
          ''Little Forest Eco Score >> {} <<'' @ [CHR 0x0A],
          ''----------------------------------'' @ [CHR 0x0A],
          ''Calculate for http://b.example:'' @ [CHR 0x0A],
          ''Error calculating Eco Score for http://b.example: Error: audit failed'' @ [CHR 0x0A],
          ''Calculate for https://c.example:'' @ [CHR 0x0A],
          ''Little Forest Eco Score >> {} <<'' @ [CHR 0x0A],
          ''----------------------------------'' @ [CHR 0x0A]]"
proof -
  note facts = demo_readFileSync demo_subdomains demo_formatUrl
    demo_getEcoScore_a demo_getEcoScore_b demo_getEcoScore_c
  note inst = batch_isolation [OF demo_readFileSync, where k = 1
      and e = "Collaborator_failure ''Error: audit failed''"
      and ?d1.0 = "''a.example''" and ?d2.0 = "''b.example''" and ?d3.0 = "''https://c.example''"
      and ?r1.0 = demo_report and ?e2.0 = "Collaborator_failure ''Error: audit failed''"
      and ?r3.0 = demo_report and outputFilePath = "''scores.txt''"]
  from inst [THEN conjunct2, THEN conjunct1]
  have second: "domain_block demo_env (subdomains_of demo_urls ! 1)
                  = error_block ''http://b.example'' (Collaborator_failure ''Error: audit failed'')"
    by (simp add: facts)
  from inst [THEN conjunct2, THEN conjunct2]
  have "processSubdomains demo_env ''urls.txt'' ''scores.txt''
          = score_block demo_env ''http://a.example'' demo_report
              @ error_block ''http://b.example'' (Collaborator_failure ''Error: audit failed'')
              @ score_block demo_env ''https://c.example'' demo_report"
    by (simp add: facts)
  then have "processSubdomains demo_env ''urls.txt'' ''scores.txt''
       = [''Calculate for http://a.example:'' @ [CHR 0x0A],
          ''Little Forest Eco Score >> {} <<'' @ [CHR 0x0A],
          ''----------------------------------'' @ [CHR 0x0A],
          ''Calculate for http://b.example:'' @ [CHR 0x0A],
          ''Error calculating Eco Score for http://b.example: Error: audit failed'' @ [CHR 0x0A],
          ''Calculate for https://c.example:'' @ [CHR 0x0A],
          ''Little Forest Eco Score >> {} <<'' @ [CHR 0x0A],
          ''----------------------------------'' @ [CHR 0x0A]]"
    by (simp add: score_block_def error_block_def) (simp add: demo_env_def)
  with second show ?thesis
    by (simp add: facts)
qed

text \<open>
  C7, as amended. If the command line names both files and the input file cannot be read,
  no domain is processed: nothing is written to the stream and nothing is appended to the
  output. The read error is caught, and when the output file can be opened the process
  ends with status 0.
\<close>

theorem unreadable_input_ends_quietly:
  assumes "urls (parseArgs argv) = Some u" and "scoresfile (parseArgs argv) = Some out"
    and "readFileSync env (path_resolve env u) = Inl txt"
  shows "processSubdomains env (path_resolve env u) (path_resolve env out) = []
         \<and> appended (main env argv) = []
         \<and> (createWriteStream env (path_resolve env out) = Inr ()
            \<longrightarrow> exit_status (main env argv) = 0)"
  using assms by (simp add: main_def processSubdomains_def Let_def split: sum.splits)

theorem unreadable_input_ends_quietly_witness:
  "urls (parseArgs [''--urls'', ''missing.txt'', ''--scoresfile'', ''scores.txt''])
     = Some ''missing.txt''
   \<and> scoresfile (parseArgs [''--urls'', ''missing.txt'', ''--scoresfile'', ''scores.txt''])
       = Some ''scores.txt''
   \<and> readFileSync demo_env (path_resolve demo_env ''missing.txt'')
       = Inl ''Error: ENOENT: no such file or directory''
   \<and> createWriteStream demo_env (path_resolve demo_env ''scores.txt'') = Inr ()
   \<and> processSubdomains demo_env (path_resolve demo_env ''missing.txt'')
         (path_resolve demo_env ''scores.txt'') = []
   \<and> appended (main demo_env [''--urls'', ''missing.txt'', ''--scoresfile'', ''scores.txt'']) = []
   \<and> exit_status (main demo_env [''--urls'', ''missing.txt'', ''--scoresfile'', ''scores.txt''])
       = 0"
proof -
  have u: "urls (parseArgs [''--urls'', ''missing.txt'', ''--scoresfile'', ''scores.txt''])
             = Some ''missing.txt''"
    and out: "scoresfile (parseArgs [''--urls'', ''missing.txt'', ''--scoresfile'', ''scores.txt''])
             = Some ''scores.txt''"
    by (simp_all add: demo_argv_missing)
  from unreadable_input_ends_quietly [OF u out demo_readFileSync_missing]
       u out demo_readFileSync_missing demo_createWriteStream
  show ?thesis by simp
qed

text \<open>
  The claim as it was stated fails for an input file that does not exist and an output
  file that can be opened: the status of the run is 0.
\<close>

theorem unreadable_input_exit_status_counterexample:
  "readFileSync demo_env (path_resolve demo_env ''missing.txt'')
     = Inl ''Error: ENOENT: no such file or directory''
   \<and> \<not> (exit_status (main demo_env [''--urls'', ''missing.txt'', ''--scoresfile'', ''scores.txt''])
           \<noteq> 0
         \<and> appended (main demo_env [''--urls'', ''missing.txt'', ''--scoresfile'', ''scores.txt''])
           = [])"
  by (simp add: main_def demo_argv_missing demo_readFileSync_missing demo_createWriteStream)

text \<open>
  C8. For positive emissions \<open>a \<le> b\<close> the CO2 sub-score of \<open>b\<close> is at most the one
  of \<open>a\<close>; the sub-score depends on no other input.
\<close>

theorem co2_score_antimono:
  assumes "0 < a" and "a \<le> b"
  shows "co2Score b \<le> co2Score a"
proof -
  from assms have b: "0 < b" by simp
  have "24 / b \<le> 24 / a" using assms by (simp add: frac_le)
  then show ?thesis
    by (simp add: co2Score_positive assms(1) b Math_round_mono Math_min_mono)
qed

theorem co2_score_antimono_witness:
  "(0::real) < 1 \<and> (1::real) \<le> 2 \<and> co2Score 2 \<le> co2Score 1
   \<and> co2Score 1 = 24 \<and> co2Score 2 = 12"
proof -
  have pos: "(0::real) < 1" and le: "(1::real) \<le> 2" by simp_all
  have "co2Score 1 = 24" "co2Score 2 = 12"
    by (simp_all add: co2Score_def Math_round_def Math_min_def weights)
  with co2_score_antimono [OF pos le] pos le show ?thesis by simp
qed

text \<open>
  C9. Once the audit and the parsing of the URL have succeeded, \<open>getEcoScore\<close> fails with
  the error \<open>Could not determine server location\<close> if \<open>getServerLocation\<close> returned no
  location, and does not fail with that error if it returned one.
\<close>

theorem location_error_iff_absent:
  assumes "runLighthouse env url = Inr l" and "URL_hostname env url = Inr hostname"
  shows "(getServerLocation env hostname = None
            \<longrightarrow> getEcoScore env url = Inl (Error ''Could not determine server location''))
         \<and> (getServerLocation env hostname \<noteq> None
            \<longrightarrow> getEcoScore env url \<noteq> Inl (Error ''Could not determine server location''))"
  using assms
  by (auto simp: getEcoScore_def Let_def split: sum.splits option.splits)

theorem location_error_iff_absent_witness:
  "runLighthouse demo_env ''http://nowhere.example'' = Inr demo_lhr
   \<and> URL_hostname demo_env ''http://nowhere.example'' = Inr ''nowhere.example''
   \<and> getServerLocation demo_env ''nowhere.example'' = None
   \<and> getEcoScore demo_env ''http://nowhere.example''
       = Inl (Error ''Could not determine server location'')
   \<and> runLighthouse demo_env ''http://a.example'' = Inr demo_lhr
   \<and> URL_hostname demo_env ''http://a.example'' = Inr ''a.example''
   \<and> getServerLocation demo_env ''a.example'' \<noteq> None
   \<and> getEcoScore demo_env ''http://a.example''
       \<noteq> Inl (Error ''Could not determine server location'')"
  using location_error_iff_absent [OF demo_runLighthouse_nowhere demo_hostname_nowhere]
    location_error_iff_absent [OF demo_runLighthouse_a demo_hostname_a]
    demo_runLighthouse_nowhere demo_hostname_nowhere demo_location_nowhere
    demo_runLighthouse_a demo_hostname_a demo_location_a
  by simp

text \<open>
  C10. \<open>formatUrl\<close> looks for the two prefixes \<open>http://\<close> and \<open>https://\<close> only: a string
  that starts with neither gets \<open>http://\<close> put in front, whatever scheme it starts with, a
  string that starts with one of them is returned as it is, and formatting twice is
  formatting once.
\<close>

theorem formatUrl_two_prefixes:
  "(\<not> prefix ''http://'' url \<and> \<not> prefix ''https://'' url
      \<longrightarrow> formatUrl url = ''http://'' @ url)
   \<and> (prefix ''http://'' url \<or> prefix ''https://'' url \<longrightarrow> formatUrl url = url)
   \<and> formatUrl (formatUrl url) = formatUrl url"
  by (simp add: formatUrl_def)

theorem formatUrl_two_prefixes_witness:
  "\<not> prefix ''http://'' ''ftp://example.com'' \<and> \<not> prefix ''https://'' ''ftp://example.com''
   \<and> formatUrl ''ftp://example.com'' = ''http://ftp://example.com''
   \<and> prefix ''http://'' (formatUrl ''ftp://example.com'')
   \<and> formatUrl (formatUrl ''ftp://example.com'') = formatUrl ''ftp://example.com''"
  using formatUrl_two_prefixes [of "''ftp://example.com''"]
    formatUrl_two_prefixes [of "''http://ftp://example.com''"]
  by simp

end
